theory Spec2Isabelle
  imports Complex_Main
begin

section \<open>Conventions of the embedding\<close>

text \<open>
  The scoring and inference core of TalentRank is embedded function by function.
  Python's unbounded integers are \<open>int\<close>.  A float is modelled by the real number it
  denotes.  Where the rounding of a floating-point operation can decide a property, the
  operation is not computed exactly: the primitives of \<open>_normalize_value\<close> (\<open>math.log\<close>,
  float division and multiplication) are parameters of the model, and the division of
  two integers raises \<open>OverflowError\<close> where Python's does.  The remaining float
  arithmetic is written with the exact operations.  A Python exception is a value
  \<open>Inl e\<close> of a sum type, a normal return is \<open>Inr v\<close>.  Source names are kept; a leading
  underscore of a private method is dropped, since an identifier cannot start with one.
\<close>

datatype py_error =
    ZeroDivisionError
  | ValueError
  | IndexError
  | KeyError
  | TypeError
  | OverflowError
  | UpstreamError string

text \<open>Sequencing of two fallible steps: the first exception raised propagates.\<close>

definition and_then :: "py_error + 'a \<Rightarrow> ('a \<Rightarrow> py_error + 'b) \<Rightarrow> py_error + 'b" where
  "and_then r f = (case r of Inl e \<Rightarrow> Inl e | Inr v \<Rightarrow> f v)"

text \<open>
  Python's true division \<open>a / b\<close>: raises on a zero divisor.  It is used where the
  quotient cannot leave the range of a float: a count over a count that is not smaller,
  and a total of scores, each at most 100, over their number.
\<close>

definition truediv :: "real \<Rightarrow> real \<Rightarrow> py_error + real" where
  "truediv a b = (if b = 0 then Inl ZeroDivisionError else Inr (a / b))"

text \<open>
  Python's true division \<open>a / b\<close> of two integers: a zero divisor raises; the quotient
  is rounded to the nearest double, and raises when that is out of range, which is from
  \<open>2 ^ 1024 - 2 ^ 970\<close> on (the midpoint between the largest double and \<open>2 ^ 1024\<close>).
  Below that bound the model returns the quotient itself.
\<close>

definition int_truediv :: "int \<Rightarrow> int \<Rightarrow> py_error + real" where
  "int_truediv a b =
     (if b = 0 then Inl ZeroDivisionError
      else if 2 ^ 1024 - 2 ^ 970 \<le> \<bar>real_of_int a / real_of_int b\<bar> then Inl OverflowError
      else Inr (real_of_int a / real_of_int b))"

text \<open>
  The floating-point primitives used by \<open>_normalize_value\<close>, as the platform computes
  them: \<open>math.log\<close> at an integer, the division of two floats and their product.
\<close>

record float_ops =
  math_log :: "int \<Rightarrow> py_error + real"
  float_truediv :: "real \<Rightarrow> real \<Rightarrow> py_error + real"
  float_mul :: "real \<Rightarrow> real \<Rightarrow> real"

text \<open>
  The same primitives without rounding: the logarithm with its domain error, the exact
  quotient and the exact product.  They serve as an instance of the parameters.
\<close>

definition exact_log :: "int \<Rightarrow> py_error + real" where
  "exact_log x = (if x \<le> 0 then Inl ValueError else Inr (ln (real_of_int x)))"

definition exact_ops :: float_ops where
  "exact_ops = \<lparr>math_log = exact_log, float_truediv = truediv, float_mul = (*)\<rparr>"

section \<open>ranking/score\_calculator.py\<close>

record ProjectMetrics =
  stars :: int
  forks :: int
  watchers :: int

record DeveloperMetrics =
  commits :: int
  resolved_issues :: int
  pull_requests :: int
  code_reviews :: int

text \<open>
  \<open>TalentRankCalculator._normalize_value(value, baseline)\<close>:
  \<^verbatim>\<open>if value <= 0: return 0\<close>, then
  \<^verbatim>\<open>min(100, (math.log(value + 1) / math.log(baseline + 1)) * 100)\<close>.
\<close>

definition normalize_value :: "float_ops \<Rightarrow> int \<Rightarrow> int \<Rightarrow> py_error + real" where
  "normalize_value ops v b =
     (if v \<le> 0 then Inr 0
      else and_then (math_log ops (v + 1)) (\<lambda>lv.
           and_then (math_log ops (b + 1)) (\<lambda>lb.
           and_then (float_truediv ops lv lb) (\<lambda>q.
           Inr (min 100 (float_mul ops q 100))))))"

text \<open>The class constants \<open>PROJECT_WEIGHTS\<close> and \<open>DEVELOPER_WEIGHTS\<close>.\<close>

definition PROJECT_WEIGHTS_stars :: real where "PROJECT_WEIGHTS_stars = 0.4"
definition PROJECT_WEIGHTS_forks :: real where "PROJECT_WEIGHTS_forks = 0.3"
definition PROJECT_WEIGHTS_watchers :: real where "PROJECT_WEIGHTS_watchers = 0.3"

definition DEVELOPER_WEIGHTS_commits :: real where "DEVELOPER_WEIGHTS_commits = 0.3"
definition DEVELOPER_WEIGHTS_resolved_issues :: real where "DEVELOPER_WEIGHTS_resolved_issues = 0.25"
definition DEVELOPER_WEIGHTS_pull_requests :: real where "DEVELOPER_WEIGHTS_pull_requests = 0.25"
definition DEVELOPER_WEIGHTS_code_reviews :: real where "DEVELOPER_WEIGHTS_code_reviews = 0.2"

definition calculate_project_importance :: "float_ops \<Rightarrow> ProjectMetrics \<Rightarrow> py_error + real" where
  "calculate_project_importance ops m =
     and_then (normalize_value ops (stars m) 1000) (\<lambda>normalized_stars.
     and_then (normalize_value ops (forks m) 500) (\<lambda>normalized_forks.
     and_then (normalize_value ops (watchers m) 200) (\<lambda>normalized_watchers.
     Inr (min (normalized_stars * PROJECT_WEIGHTS_stars
               + normalized_forks * PROJECT_WEIGHTS_forks
               + normalized_watchers * PROJECT_WEIGHTS_watchers) 100))))"

definition calculate_developer_contribution :: "float_ops \<Rightarrow> DeveloperMetrics \<Rightarrow> py_error + real" where
  "calculate_developer_contribution ops m =
     and_then (normalize_value ops (commits m) 100) (\<lambda>normalized_commits.
     and_then (normalize_value ops (resolved_issues m) 50) (\<lambda>normalized_issues.
     and_then (normalize_value ops (pull_requests m) 30) (\<lambda>normalized_prs.
     and_then (normalize_value ops (code_reviews m) 40) (\<lambda>normalized_reviews.
     Inr (min (normalized_commits * DEVELOPER_WEIGHTS_commits
               + normalized_issues * DEVELOPER_WEIGHTS_resolved_issues
               + normalized_prs * DEVELOPER_WEIGHTS_pull_requests
               + normalized_reviews * DEVELOPER_WEIGHTS_code_reviews) 100)))))"

text \<open>
  \<open>calculate_final_score(project_score, contribution_score, activity_factor)\<close>:
  \<^verbatim>\<open>return (project_score * 0.4 + contribution_score * 0.6) * activity_factor\<close>.
\<close>

definition calculate_final_score :: "real \<Rightarrow> real \<Rightarrow> real \<Rightarrow> real" where
  "calculate_final_score project_score contribution_score activity_factor =
     (project_score * 0.4 + contribution_score * 0.6) * activity_factor"

section \<open>Strings\<close>

text \<open>
  Strings are \<open>char list\<close>.  \<open>lower\<close> and \<open>strip\<close> are Python's \<open>str.lower\<close> and
  \<open>str.strip\<close> on ASCII text: the letters A to Z are mapped to a to z and every other
  character is kept; the characters stripped from both ends are the space, the control
  characters 9 to 13 and 28 to 31.  \<open>is_substring k s\<close> is Python's \<^verbatim>\<open>k in s\<close>.
\<close>

definition ascii_uppercase :: string where
  "ascii_uppercase = ''ABCDEFGHIJKLMNOPQRSTUVWXYZ''"

definition ascii_lowercase :: string where
  "ascii_lowercase = ''abcdefghijklmnopqrstuvwxyz''"

definition lower_char :: "char \<Rightarrow> char" where
  "lower_char c =
     (case map_of (zip ascii_uppercase ascii_lowercase) c of Some l \<Rightarrow> l | None \<Rightarrow> c)"

definition lower :: "string \<Rightarrow> string" where
  "lower s = map lower_char s"

definition whitespace :: "char list" where
  "whitespace = [CHR '' '', CHR 0x09, CHR 0x0A, CHR 0x0B, CHR 0x0C, CHR 0x0D,
                 CHR 0x1C, CHR 0x1D, CHR 0x1E, CHR 0x1F]"

definition strip :: "string \<Rightarrow> string" where
  "strip s =
     rev (dropWhile (\<lambda>c. c \<in> set whitespace) (rev (dropWhile (\<lambda>c. c \<in> set whitespace) s)))"

fun startswith :: "string \<Rightarrow> string \<Rightarrow> bool" where
  "startswith s [] = True"
| "startswith [] (k # ks) = False"
| "startswith (c # cs) (k # ks) = (c = k \<and> startswith cs ks)"

fun is_substring :: "string \<Rightarrow> string \<Rightarrow> bool" where
  "is_substring k [] = (k = [])"
| "is_substring k (c # cs) = (startswith (c # cs) k \<or> is_substring k cs)"

text \<open>Truthiness of an optional string: \<open>None\<close> and the empty string are false.\<close>

definition truthy :: "string option \<Rightarrow> bool" where
  "truthy s = (case s of None \<Rightarrow> False | Some t \<Rightarrow> t \<noteq> [])"

section \<open>analysis/domain\_classifier.py\<close>

text \<open>
  A repository is the dictionary built by \<open>get_repository_metrics\<close>.  Each field below is
  one key; \<open>None\<close> stands for a missing key (and, for \<open>language\<close> and \<open>topics\<close>, also for
  the value \<open>None\<close>, which \<open>repo.get\<close> does not tell apart).  The keys \<open>created_at\<close> and
  \<open>updated_at\<close> are never read and are left out.
\<close>

record repo_dict =
  key_stars :: "int option"
  key_forks :: "int option"
  key_watchers :: "int option"
  key_language :: "string option"
  key_topics :: "string list option"

text \<open>The dictionary built by \<open>get_developer_contributions\<close>.\<close>

record contrib_dict =
  key_commits_count :: "int option"
  key_resolved_issues :: "int option"
  key_pull_requests :: "int option"
  key_code_reviews :: "int option"

text \<open>\<open>_init_domain_keywords\<close>, in the dictionary's insertion order.\<close>

definition domain_keywords :: "(string \<times> string list) list" where
  "domain_keywords =
     [(''Frontend'', [''javascript'', ''typescript'', ''react'', ''vue'', ''angular'', ''web'']),
      (''Backend'', [''python'', ''java'', ''golang'', ''nodejs'', ''django'', ''spring'']),
      (''Mobile'', [''android'', ''ios'', ''flutter'', ''react-native'', ''mobile'']),
      (''DevOps'', [''docker'', ''kubernetes'', ''aws'', ''cicd'', ''jenkins'']),
      (''AI/ML'', [''machine-learning'', ''deep-learning'', ''tensorflow'', ''pytorch'']),
      (''Security'', [''security'', ''cryptography'', ''encryption'', ''penetration'']),
      (''Database'', [''mysql'', ''postgresql'', ''mongodb'', ''redis'', ''elasticsearch''])]"

text \<open>\<open>_classify_by_language\<close>: the domains whose keyword list contains the lowered language.\<close>

definition classify_by_language :: "string \<Rightarrow> string set" where
  "classify_by_language language =
     set [domain. (domain, keywords) \<leftarrow> domain_keywords, lower language \<in> set keywords]"

text \<open>
  \<open>_classify_by_topics\<close>: the domains one of whose keywords is a substring of a lowered topic.
\<close>

definition classify_by_topics :: "string list \<Rightarrow> string set" where
  "classify_by_topics topics =
     set [domain. topic \<leftarrow> topics, (domain, keywords) \<leftarrow> domain_keywords,
          list_ex (\<lambda>keyword. is_substring keyword (lower topic)) keywords]"

text \<open>
  \<open>_analyze_repo_domains\<close>: \<^verbatim>\<open>if repo.get('language')\<close> and \<^verbatim>\<open>if repo.get('topics')\<close>
  skip a missing, \<open>None\<close> or empty value.
\<close>

definition analyze_repo_domains :: "repo_dict \<Rightarrow> string set" where
  "analyze_repo_domains repo =
     (case key_language repo of
        None \<Rightarrow> {}
      | Some language \<Rightarrow> if language = [] then {} else classify_by_language language)
     \<union>
     (case key_topics repo of
        None \<Rightarrow> {}
      | Some topics \<Rightarrow> if topics = [] then {} else classify_by_topics topics)"

text \<open>
  \<open>_calculate_repo_weight\<close>: \<^verbatim>\<open>min(100, repo.get('stars', 0) / 100)\<close>.  The division is
  that of two integers and raises for a star count too large for a float.
\<close>

definition calculate_repo_weight :: "repo_dict \<Rightarrow> py_error + real" where
  "calculate_repo_weight repo =
     and_then (int_truediv (case key_stars repo of None \<Rightarrow> 0 | Some s \<Rightarrow> s) 100)
       (\<lambda>q. Inr (min 100 q))"

text \<open>
  \<^verbatim>\<open>for domain in domains: domain_scores[domain] += weight\<close> on a
  \<open>defaultdict(float)\<close>: a key not yet present starts from \<open>0.0\<close>.  The updates are at
  distinct keys, so the order in which the set is traversed does not matter.
\<close>

definition add_weight :: "(string \<rightharpoonup> real) \<Rightarrow> string set \<Rightarrow> real \<Rightarrow> (string \<rightharpoonup> real)" where
  "add_weight domain_scores domains weight =
     (\<lambda>domain. if domain \<in> domains
                then Some ((case domain_scores domain of None \<Rightarrow> 0 | Some x \<Rightarrow> x) + weight)
                else domain_scores domain)"

text \<open>
  The loop over the repositories, on the pair \<open>(domain_scores, total_weight)\<close>; an
  exception raised while weighing a repository ends it.
\<close>

fun classify_loop ::
  "repo_dict list \<Rightarrow> (string \<rightharpoonup> real) \<Rightarrow> real
     \<Rightarrow> py_error + ((string \<rightharpoonup> real) \<times> real)" where
  "classify_loop [] domain_scores total_weight = Inr (domain_scores, total_weight)"
| "classify_loop (repo # rest) domain_scores total_weight =
     and_then (calculate_repo_weight repo) (\<lambda>weight.
       classify_loop rest
         (add_weight domain_scores (analyze_repo_domains repo) weight)
         (total_weight + weight))"

text \<open>
  \<^verbatim>\<open>for domain in domain_scores: domain_scores[domain] /= total_weight\<close>.  A zero divisor
  raises at the first entry; the model reports the exception for a zero divisor whether
  or not there is an entry.
\<close>

definition divide_all :: "(string \<rightharpoonup> real) \<Rightarrow> real \<Rightarrow> py_error + (string \<rightharpoonup> real)" where
  "divide_all domain_scores total_weight =
     (if total_weight = 0 then Inl ZeroDivisionError
      else Inr (\<lambda>domain. map_option (\<lambda>x. x / total_weight) (domain_scores domain)))"

definition classify_domains ::
  "repo_dict list \<Rightarrow> contrib_dict list \<Rightarrow> py_error + (string \<rightharpoonup> real)" where
  "classify_domains repositories contributions =
     and_then (classify_loop repositories Map.empty 0)
       (\<lambda>(domain_scores, total_weight).
          if total_weight > 0 then divide_all domain_scores total_weight
          else Inr domain_scores)"

section \<open>analysis/nation\_predictor.py\<close>

text \<open>\<open>_load_location_mapping\<close>, in the dictionary's insertion order.\<close>

definition location_mapping :: "(string \<times> string list) list" where
  "location_mapping =
     [(''China'', [''china'', ''cn'', ''beijing'', ''shanghai'', ''guangzhou'', ''shenzhen'']),
      (''United States'', [''usa'', ''us'', ''united states'', ''california'', ''new york'']),
      (''India'', [''india'', ''bangalore'', ''mumbai'', ''delhi'']),
      (''United Kingdom'', [''uk'', ''united kingdom'', ''london'', ''manchester''])]"

text \<open>
  \<open>_map_location_to_nation\<close>: \<open>None\<close> for an empty location; otherwise the first nation of
  the table one of whose keywords occurs in the lowered, stripped location.
\<close>

definition map_location_to_nation :: "string \<Rightarrow> string option" where
  "map_location_to_nation location =
     (if location = [] then None
      else map_option fst
             (find (\<lambda>(nation, keywords).
                      list_ex (\<lambda>keyword. is_substring keyword (strip (lower location))) keywords)
                   location_mapping))"

text \<open>
  \<open>collections.Counter\<close> over a list: the distinct elements in the order first
  encountered, each with its number of occurrences.
\<close>

fun counter_add :: "'a \<Rightarrow> ('a \<times> nat) list \<Rightarrow> ('a \<times> nat) list" where
  "counter_add x [] = [(x, 1)]"
| "counter_add x ((k, c) # rest) =
     (if k = x then (k, c + 1) # rest else (k, c) # counter_add x rest)"

definition Counter :: "'a list \<Rightarrow> ('a \<times> nat) list" where
  "Counter xs = foldl (\<lambda>counts x. counter_add x counts) [] xs"

text \<open>
  \<open>most_common(1)\<close>: the first entry with the largest count, as a list of at most one
  entry (empty for an empty counter).
\<close>

fun first_max :: "('a \<times> nat) \<Rightarrow> ('a \<times> nat) list \<Rightarrow> ('a \<times> nat)" where
  "first_max best [] = best"
| "first_max best (x # xs) = first_max (if snd best < snd x then x else best) xs"

definition most_common_1 :: "('a \<times> nat) list \<Rightarrow> ('a \<times> nat) list" where
  "most_common_1 counts = (case counts of [] \<Rightarrow> [] | x # xs \<Rightarrow> [first_max x xs])"

text \<open>
  \<open>_predict_from_network\<close>.  The comprehension keeps \<open>_map_location_to_nation(loc)\<close> for
  every \<open>loc\<close> that is non-empty and whose image is truthy.
\<close>

definition mapped_nations :: "string list \<Rightarrow> string list" where
  "mapped_nations network_locations =
     List.map_filter
       (\<lambda>loc. if loc \<noteq> [] \<and> truthy (map_location_to_nation loc)
              then map_location_to_nation loc else None)
       network_locations"

definition predict_from_network :: "string list \<Rightarrow> py_error + (string \<times> real)" where
  "predict_from_network network_locations =
     (let mapped = mapped_nations network_locations
      in if mapped = [] then Inr (''Unknown'', 0)
         else
           (let nation_counts = Counter mapped;
                total_valid = length mapped
            in case most_common_1 nation_counts of
                 [] \<Rightarrow> Inl IndexError
               | most_common # _ \<Rightarrow>
                   and_then (truediv (real (snd most_common)) (real total_valid))
                            (\<lambda>confidence. Inr (fst most_common, confidence))))"

text \<open>
  \<open>predict_nation\<close>.  The declared location is the profile's optional \<open>location\<close>; the
  network is consulted unless the declared location is truthy and maps to a truthy nation.
\<close>

definition predict_nation :: "string option \<Rightarrow> string list \<Rightarrow> py_error + (string \<times> real)" where
  "predict_nation developer_location network_locations =
     (case developer_location of
        None \<Rightarrow> predict_from_network network_locations
      | Some location \<Rightarrow>
          if location \<noteq> [] \<and> truthy (map_location_to_nation location)
          then (case map_location_to_nation location of
                  Some mapped_nation \<Rightarrow> Inr (mapped_nation, 1)
                | None \<Rightarrow> predict_from_network network_locations)
          else predict_from_network network_locations)"

section \<open>data/github\_collector.py and services/developer\_analyzer.py\<close>

record DeveloperProfile =
  username :: string
  name :: "string option"
  location :: "string option"
  blog :: "string option"
  bio :: "string option"
  repositories :: "string list"
  followers :: "string list"
  following :: "string list"

type_synonym datetime = int

record DeveloperAnalysis =
  username :: string
  talent_rank :: real
  nation :: string
  nation_confidence :: real
  domains :: "string \<rightharpoonup> real"
  profile :: DeveloperProfile
  last_updated :: datetime

text \<open>
  The analyzer talks to the outside world through its collector.  An action takes the
  state of the outside world \<open>'w\<close> and returns an exception or a value together with the
  new state; nothing is assumed about two calls with the same arguments giving the same
  answer.  The collector is the \<open>GitHubDataCollector\<close> that \<open>DeveloperAnalyzer.__init__\<close>
  creates.  The bodies of its three methods query the GitHub API; what such a call
  returns or raises is a parameter, one field of \<open>collector\<close> per method.
\<close>

type_synonym ('w, 'a) action = "'w \<Rightarrow> (py_error + 'a) \<times> 'w"

definition return :: "'a \<Rightarrow> ('w, 'a) action" where
  "return v = (\<lambda>w. (Inr v, w))"

definition lift :: "py_error + 'a \<Rightarrow> ('w, 'a) action" where
  "lift r = (\<lambda>w. (r, w))"

definition bind :: "('w, 'a) action \<Rightarrow> ('a \<Rightarrow> ('w, 'b) action) \<Rightarrow> ('w, 'b) action" where
  "bind m f = (\<lambda>w. case m w of (Inl e, w') \<Rightarrow> (Inl e, w') | (Inr v, w') \<Rightarrow> f v w')"

record 'w collector =
  get_developer_profile :: "string \<Rightarrow> ('w, DeveloperProfile) action"
  get_repository_metrics :: "string \<Rightarrow> ('w, repo_dict) action"
  get_developer_contributions :: "string \<Rightarrow> string \<Rightarrow> ('w, contrib_dict) action"

text \<open>
  The three methods are declared with \<open>def\<close>, not \<open>async def\<close>: a call returns a
  \<open>DeveloperProfile\<close> or a dictionary, not an awaitable.  The analyzer writes
  \<^verbatim>\<open>await self.collector.method(args)\<close>: the call runs, and awaiting the object it returned
  raises \<open>TypeError\<close>.  Awaiting a call of one of the analyzer's own \<open>async def\<close>
  methods runs that method, and needs no operator in the model.
\<close>

definition await_plain :: "('w, 'a) action \<Rightarrow> ('w, 'a) action" where
  "await_plain call = bind call (\<lambda>returned. lift (Inl TypeError))"

text \<open>Subscription \<^verbatim>\<open>d['key']\<close>: a missing key raises.\<close>

definition getitem :: "'a option \<Rightarrow> py_error + 'a" where
  "getitem v = (case v of None \<Rightarrow> Inl KeyError | Some x \<Rightarrow> Inr x)"

text \<open>\<open>_calculate_activity_factor\<close>: the constant \<open>1.0\<close>.\<close>

definition calculate_activity_factor :: "string list \<Rightarrow> real" where
  "calculate_activity_factor repos = 1"

text \<open>
  The loop of \<open>_calculate_talent_rank\<close>, on the triple
  \<open>(total_project_score, total_contribution_score, repo_count)\<close>.
\<close>

fun talent_rank_loop ::
  "float_ops \<Rightarrow> 'w collector \<Rightarrow> string \<Rightarrow> string list \<Rightarrow> real \<times> real \<times> nat
     \<Rightarrow> ('w, real \<times> real \<times> nat) action" where
  "talent_rank_loop ops c user [] totals = return totals"
| "talent_rank_loop ops c user (repo_name # rest)
       (total_project_score, total_contribution_score, repo_count) =
     bind (await_plain (get_repository_metrics c repo_name)) (\<lambda>metrics.
     bind (lift (getitem (key_stars metrics))) (\<lambda>m_stars.
     bind (lift (getitem (key_forks metrics))) (\<lambda>m_forks.
     bind (lift (getitem (key_watchers metrics))) (\<lambda>m_watchers.
     bind (await_plain (get_developer_contributions c user repo_name)) (\<lambda>contributions.
     bind (lift (getitem (key_commits_count contributions))) (\<lambda>c_commits.
     bind (lift (getitem (key_resolved_issues contributions))) (\<lambda>c_issues.
     bind (lift (getitem (key_pull_requests contributions))) (\<lambda>c_pulls.
     bind (lift (getitem (key_code_reviews contributions))) (\<lambda>c_reviews.
     bind (lift (calculate_project_importance ops
                   \<lparr>stars = m_stars, forks = m_forks, watchers = m_watchers\<rparr>)) (\<lambda>project_score.
     bind (lift (calculate_developer_contribution ops
                   \<lparr>commits = c_commits, resolved_issues = c_issues,
                    pull_requests = c_pulls, code_reviews = c_reviews\<rparr>)) (\<lambda>contribution_score.
     talent_rank_loop ops c user rest
       (total_project_score + project_score,
        total_contribution_score + contribution_score,
        repo_count + 1))))))))))))"

definition calculate_talent_rank ::
  "float_ops \<Rightarrow> 'w collector \<Rightarrow> string \<Rightarrow> string list \<Rightarrow> ('w, real) action" where
  "calculate_talent_rank ops c user repos =
     bind (talent_rank_loop ops c user repos (0, 0, 0))
       (\<lambda>(total_project_score, total_contribution_score, repo_count).
          if repo_count = 0 then return 0
          else
            bind (lift (truediv total_project_score (real repo_count))) (\<lambda>avg_project_score.
            bind (lift (truediv total_contribution_score (real repo_count))) (\<lambda>avg_contribution_score.
            return (calculate_final_score avg_project_score avg_contribution_score
                      (calculate_activity_factor repos)))))"

text \<open>
  \<open>_collect_network_locations\<close>: one profile fetch per follower, then per followed user;
  a truthy location is appended.
\<close>

fun collect_locations :: "'w collector \<Rightarrow> string list \<Rightarrow> string list \<Rightarrow> ('w, string list) action" where
  "collect_locations c [] locations = return locations"
| "collect_locations c (user # rest) locations =
     bind (await_plain (get_developer_profile c user)) (\<lambda>user_profile.
     collect_locations c rest
       (case location user_profile of
          None \<Rightarrow> locations
        | Some l \<Rightarrow> if l = [] then locations else locations @ [l]))"

definition collect_network_locations :: "'w collector \<Rightarrow> DeveloperProfile \<Rightarrow> ('w, string list) action" where
  "collect_network_locations c p =
     bind (collect_locations c (followers p) []) (\<lambda>locations.
     collect_locations c (following p) locations)"

fun collect_repository_details_loop ::
  "'w collector \<Rightarrow> string list \<Rightarrow> repo_dict list \<Rightarrow> ('w, repo_dict list) action" where
  "collect_repository_details_loop c [] details = return details"
| "collect_repository_details_loop c (repo_name # rest) details =
     bind (await_plain (get_repository_metrics c repo_name)) (\<lambda>metrics.
     collect_repository_details_loop c rest (details @ [metrics]))"

definition collect_repository_details :: "'w collector \<Rightarrow> string list \<Rightarrow> ('w, repo_dict list) action" where
  "collect_repository_details c repos = collect_repository_details_loop c repos []"

fun collect_contributions_loop ::
  "'w collector \<Rightarrow> string \<Rightarrow> string list \<Rightarrow> contrib_dict list \<Rightarrow> ('w, contrib_dict list) action" where
  "collect_contributions_loop c user [] contributions = return contributions"
| "collect_contributions_loop c user (repo_name # rest) contributions =
     bind (await_plain (get_developer_contributions c user repo_name)) (\<lambda>contrib.
     collect_contributions_loop c user rest (contributions @ [contrib]))"

definition collect_contributions ::
  "'w collector \<Rightarrow> string \<Rightarrow> string list \<Rightarrow> ('w, contrib_dict list) action" where
  "collect_contributions c user repos = collect_contributions_loop c user repos []"

text \<open>
  \<open>analyze_developer\<close>; \<open>now\<close> reads the clock (\<open>datetime.now()\<close>) from the outside world.
\<close>

definition analyze_developer ::
  "float_ops \<Rightarrow> 'w collector \<Rightarrow> ('w \<Rightarrow> datetime) \<Rightarrow> string
     \<Rightarrow> ('w, DeveloperAnalysis) action" where
  "analyze_developer ops c now user =
     bind (await_plain (get_developer_profile c user)) (\<lambda>p.
     bind (calculate_talent_rank ops c user (repositories p)) (\<lambda>rank.
     bind (collect_network_locations c p) (\<lambda>network_locations.
     bind (lift (predict_nation (location p) network_locations)) (\<lambda>(predicted, confidence).
     bind (collect_repository_details c (repositories p)) (\<lambda>repository_details.
     bind (collect_contributions c user (repositories p)) (\<lambda>contributions.
     bind (lift (classify_domains repository_details contributions)) (\<lambda>domain_map.
     (\<lambda>w. (Inr \<lparr>username = user, talent_rank = rank, nation = predicted,
                 nation_confidence = confidence, domains = domain_map,
                 profile = p, last_updated = now w\<rparr>, w)))))))))"

section \<open>Properties of the score calculator\<close>

lemma normalize_value_nonpos: "v \<le> 0 \<Longrightarrow> normalize_value ops v b = Inr 0"
  by (simp add: normalize_value_def)

lemma normalize_value_pos:
  assumes "0 < v"
    and "math_log ops (v + 1) = Inr lv"
    and "math_log ops (b + 1) = Inr lb"
    and "float_truediv ops lv lb = Inr q"
  shows "normalize_value ops v b = Inr (min 100 (float_mul ops q 100))"
  using assms by (simp add: normalize_value_def and_then_def)

text \<open>
  Whatever the rounding, the order of two normalised values is that of the two
  logarithms, as long as dividing by the baseline's logarithm and multiplying by 100
  keep the order.
\<close>

lemma normalize_value_mono:
  assumes "0 < v1" and "0 < v2"
    and "math_log ops (v1 + 1) = Inr l1"
    and "math_log ops (v2 + 1) = Inr l2"
    and "math_log ops (b + 1) = Inr lb"
    and "float_truediv ops l1 lb = Inr q1"
    and "float_truediv ops l2 lb = Inr q2"
    and "l1 \<le> l2 \<Longrightarrow> q1 \<le> q2"
    and "q1 \<le> q2 \<Longrightarrow> float_mul ops q1 100 \<le> float_mul ops q2 100"
    and "l1 \<le> l2"
  shows "\<exists>x1 x2. normalize_value ops v1 b = Inr x1 \<and> normalize_value ops v2 b = Inr x2 \<and> x1 \<le> x2"
proof -
  have "float_mul ops q1 100 \<le> float_mul ops q2 100"
    using assms(8-10) by simp
  then have "min 100 (float_mul ops q1 100) \<le> min 100 (float_mul ops q2 100)"
    by (simp add: min_le_iff_disj)
  then show ?thesis
    using normalize_value_pos [OF assms(1) assms(3) assms(5) assms(6)]
      normalize_value_pos [OF assms(2) assms(4) assms(5) assms(7)]
    by simp
qed

text \<open>
  Claim C3, as stated: for every baseline \<open>b > 0\<close>, \<open>normalize(0, b) = 0\<close>, the result
  never exceeds 100, and no finite \<open>v\<close> gives exactly 100.  The last part fails: at
  \<open>v = b = 100\<close> the two logarithms are the same number, however it was rounded, their
  quotient is 1, and the clamp \<open>min(100, \<dots>)\<close> returns exactly 100.
\<close>

theorem normalize_attains_100: "normalize_value exact_ops 100 100 = Inr 100"
  by (simp add: normalize_value_def exact_ops_def exact_log_def truediv_def and_then_def)

text \<open>
  Claim C3, amended: for every baseline \<open>b > 0\<close>, \<open>normalize(0, b) = 0\<close>; for every
  \<open>v \<ge> 0\<close> the call returns a value that is at most 100; and the value 100 is reached
  by a finite \<open>v\<close>, namely \<open>normalize(b, b) = 100\<close>.  The floating-point primitives
  enter through three facts only: the logarithms of two integers above 1 are floats, the
  second not zero, and have a quotient; a non-zero float divided by itself is 1; and
  \<open>1 * 100\<close> is 100.
\<close>

theorem normalize_zero_bound_attained:
  assumes "0 < b"
    and logs: "\<And>m n. 1 < m \<Longrightarrow> 1 < n \<Longrightarrow>
                 \<exists>lm ln q. math_log ops m = Inr lm \<and> math_log ops n = Inr ln \<and> ln \<noteq> 0
                          \<and> float_truediv ops lm ln = Inr q"
    and self: "\<And>x. x \<noteq> 0 \<Longrightarrow> float_truediv ops x x = Inr 1"
    and hundred: "float_mul ops 1 100 = 100"
  shows "normalize_value ops 0 b = Inr 0
       \<and> (\<forall>v. 0 \<le> v \<longrightarrow> (\<exists>x. normalize_value ops v b = Inr x \<and> x \<le> 100))
       \<and> normalize_value ops b b = Inr 100"
proof (intro conjI allI impI)
  show "normalize_value ops 0 b = Inr 0"
    by (simp add: normalize_value_nonpos)
next
  fix v :: int
  assume "0 \<le> v"
  show "\<exists>x. normalize_value ops v b = Inr x \<and> x \<le> 100"
  proof (cases "v = 0")
    case True
    then show ?thesis by (simp add: normalize_value_nonpos)
  next
    case False
    then have pos: "0 < v" using \<open>0 \<le> v\<close> by simp
    from logs [of "v + 1" "b + 1"] pos assms(1) obtain lv lb q where
      "math_log ops (v + 1) = Inr lv" "math_log ops (b + 1) = Inr lb"
      "float_truediv ops lv lb = Inr q"
      by auto
    from normalize_value_pos [OF pos this] show ?thesis
      by simp
  qed
next
  from logs [of "b + 1" "b + 1"] assms(1) obtain lb where
    lb: "math_log ops (b + 1) = Inr lb" and nz: "lb \<noteq> 0"
    by auto
  from normalize_value_pos [OF assms(1) lb lb self [OF nz]]
  show "normalize_value ops b b = Inr 100"
    by (simp add: hundred)
qed

lemma exact_ops_logs:
  "1 < m \<Longrightarrow> 1 < n \<Longrightarrow>
     \<exists>lm ln q. math_log exact_ops m = Inr lm \<and> math_log exact_ops n = Inr ln \<and> ln \<noteq> 0
              \<and> float_truediv exact_ops lm ln = Inr q"
  by (simp add: exact_ops_def exact_log_def truediv_def)

lemma exact_ops_div_self: "x \<noteq> 0 \<Longrightarrow> float_truediv exact_ops x x = Inr 1"
  by (simp add: exact_ops_def truediv_def)

lemma exact_ops_mul_hundred: "float_mul exact_ops 1 100 = 100"
  by (simp add: exact_ops_def)

theorem normalize_zero_bound_attained_witness:
  "(0::int) < 100 \<and> normalize_value exact_ops 0 100 = Inr 0
   \<and> (\<exists>x. normalize_value exact_ops (10 ^ 9) 100 = Inr x \<and> x \<le> 100)
   \<and> normalize_value exact_ops 100 100 = Inr 100"
proof -
  have a: "normalize_value exact_ops 0 100 = Inr 0
       \<and> (\<forall>v. 0 \<le> v \<longrightarrow> (\<exists>x. normalize_value exact_ops v 100 = Inr x \<and> x \<le> 100))
       \<and> normalize_value exact_ops 100 100 = Inr 100"
    apply (rule normalize_zero_bound_attained)
       apply simp
      apply (erule (1) exact_ops_logs)
     apply (erule exact_ops_div_self)
    apply (rule exact_ops_mul_hundred)
    done
  note z = a [THEN conjunct1]
  note b = a [THEN conjunct2, THEN conjunct2]
  from a [THEN conjunct2, THEN conjunct1]
  have "(0::int) \<le> 10 ^ 9
      \<longrightarrow> (\<exists>x. normalize_value exact_ops (10 ^ 9) 100 = Inr x \<and> x \<le> 100)"
    by (rule spec)
  then have n: "\<exists>x. normalize_value exact_ops (10 ^ 9) 100 = Inr x \<and> x \<le> 100"
    by simp
  show ?thesis
    using z n b by simp
qed

text \<open>
  Claim C6: \<open>final_score\<close> returns exactly
  \<open>(project_score * 0.4 + contribution_score * 0.6) * activity_factor\<close>, with no clamp
  after the multiplication (scores of 100 and an activity factor of 2 give 200), and
  \<open>final_score(50, 50, 1.0) = 50\<close>.
\<close>

theorem final_score_formula:
  "calculate_final_score project_score contribution_score activity_factor
     = (project_score * 0.4 + contribution_score * 0.6) * activity_factor
   \<and> calculate_final_score 100 100 2 = 200
   \<and> calculate_final_score 50 50 1 = 50"
  by (simp add: calculate_final_score_def)

section \<open>Properties of the domain classifier\<close>

lemmas string_eval = lower_def lower_char_def ascii_uppercase_def ascii_lowercase_def
  strip_def whitespace_def

lemma double_overflow_bound_pos: "(0::real) < 2 ^ 1024 - 2 ^ 970"
proof -
  have "(2::real) ^ 970 < 2 ^ 1024"
    by (rule power_strict_increasing) simp_all
  then show ?thesis by simp
qed

lemma calculate_repo_weight_no_stars:
  assumes "key_stars repo = None \<or> key_stars repo = Some 0"
  shows "calculate_repo_weight repo = Inr 0"
  using assms double_overflow_bound_pos
  by (auto simp add: calculate_repo_weight_def int_truediv_def and_then_def)

lemma calculate_repo_weight_in_range:
  assumes "key_stars repo = Some s" and "0 < s" and "s < 100 * (2 ^ 1024 - 2 ^ 970)"
  shows "\<exists>w. calculate_repo_weight repo = Inr w \<and> 0 < w"
proof -
  have "real_of_int s < real_of_int (100 * (2 ^ 1024 - 2 ^ 970))"
    using assms(3) by (simp only: of_int_less_iff)
  then have "real_of_int s / 100 < 2 ^ 1024 - 2 ^ 970"
    by simp
  moreover have "0 < real_of_int s / 100"
    using assms(2) by simp
  ultimately show ?thesis
    using assms(1) by (simp add: calculate_repo_weight_def int_truediv_def and_then_def)
qed

lemma classify_domains_Nil: "classify_domains [] contributions = Inr Map.empty"
  by (simp add: classify_domains_def and_then_def)

lemma classify_loop_zero_weight:
  assumes "\<forall>repo\<in>set repos. calculate_repo_weight repo = Inr 0"
  shows "classify_loop repos scores tw =
           Inr (\<lambda>d. if \<exists>repo\<in>set repos. d \<in> analyze_repo_domains repo
                     then Some (case scores d of None \<Rightarrow> 0 | Some x \<Rightarrow> x)
                     else scores d,
                tw)"
  using assms
proof (induction repos arbitrary: scores)
  case Nil
  then show ?case by simp
next
  case (Cons repo rest)
  have w: "calculate_repo_weight repo = Inr 0"
    using Cons.prems by simp
  have rest: "\<forall>r\<in>set rest. calculate_repo_weight r = Inr 0"
    using Cons.prems by simp
  show ?case
    by (simp add: w Cons.IH [OF rest] add_weight_def and_then_def fun_eq_iff)
qed

lemma classify_by_language_javascript: "classify_by_language ''javascript'' = {''Frontend''}"
  by (simp add: classify_by_language_def domain_keywords_def string_eval)

lemma classify_by_language_Python: "classify_by_language ''Python'' = {''Backend''}"
  by (simp add: classify_by_language_def domain_keywords_def string_eval)

lemma classify_by_topics_docker: "classify_by_topics [''docker''] = {''DevOps''}"
  by (simp add: classify_by_topics_def domain_keywords_def string_eval)

text \<open>
  Claim C1, as stated: whenever every repository has weight zero, \<open>classify_domains\<close>
  returns an empty mapping, also when a zero-weight repository matches a domain.  The
  mapping is not empty then: \<open>domain_scores[domain] += weight\<close> creates the key with value
  \<open>0.0\<close>, and the skipped normalisation leaves it there.  A repository with no stars,
  language \<open>Python\<close> and topic \<open>docker\<close> gives \<open>{Backend: 0.0, DevOps: 0.0}\<close>.
\<close>

theorem classify_zero_weight_nonempty:
  "calculate_repo_weight \<lparr>key_stars = Some 0, key_forks = Some 0, key_watchers = Some 0,
       key_language = Some ''Python'', key_topics = Some [''docker'']\<rparr> = Inr 0
   \<and> classify_domains [\<lparr>key_stars = Some 0, key_forks = Some 0, key_watchers = Some 0,
       key_language = Some ''Python'', key_topics = Some [''docker'']\<rparr>] []
     = Inr [''Backend'' \<mapsto> 0, ''DevOps'' \<mapsto> 0]
   \<and> classify_domains [\<lparr>key_stars = Some 0, key_forks = Some 0, key_watchers = Some 0,
       key_language = Some ''Python'', key_topics = Some [''docker'']\<rparr>] []
     \<noteq> Inr Map.empty"
proof -
  let ?r = "\<lparr>key_stars = Some 0, key_forks = Some 0, key_watchers = Some 0,
       key_language = Some ''Python'', key_topics = Some [''docker'']\<rparr>"
  have w: "calculate_repo_weight ?r = Inr 0"
    by (simp add: calculate_repo_weight_no_stars)
  have d: "analyze_repo_domains ?r = {''Backend'', ''DevOps''}"
    by (auto simp add: analyze_repo_domains_def classify_by_language_Python classify_by_topics_docker)
  have v: "classify_domains [?r] [] = Inr [''Backend'' \<mapsto> 0, ''DevOps'' \<mapsto> 0]"
    by (auto simp add: classify_domains_def w d add_weight_def and_then_def fun_eq_iff)
  have "[''Backend'' \<mapsto> 0, ''DevOps'' \<mapsto> (0::real)] ''Backend'' \<noteq> Map.empty ''Backend''"
    by simp
  then have "[''Backend'' \<mapsto> 0, ''DevOps'' \<mapsto> (0::real)] \<noteq> Map.empty"
    by metis
  with w v show ?thesis by simp
qed

text \<open>
  Claim C1, amended: whenever every repository has weight zero (in particular for the
  empty list), \<open>classify_domains\<close> returns without raising and without dividing, and the
  mapping it returns has exactly the domains matched by some repository's language or
  topics as keys, each with value \<open>0.0\<close>; it is empty exactly when no repository matches
  a domain.
\<close>

theorem classify_zero_weight:
  assumes "\<forall>repo\<in>set repos. calculate_repo_weight repo = Inr 0"
  shows "classify_domains repos contributions =
           Inr (\<lambda>d. if \<exists>repo\<in>set repos. d \<in> analyze_repo_domains repo then Some 0 else None)"
  by (simp add: classify_domains_def classify_loop_zero_weight [OF assms] and_then_def
      cong: if_cong)

theorem classify_zero_weight_witness:
  "calculate_repo_weight \<lparr>key_stars = Some 0, key_forks = Some 3, key_watchers = Some 0,
                      key_language = Some ''javascript'', key_topics = None\<rparr> = Inr 0
   \<and> classify_domains [\<lparr>key_stars = Some 0, key_forks = Some 3, key_watchers = Some 0,
                          key_language = Some ''javascript'', key_topics = None\<rparr>] []
       = Inr (\<lambda>d. if d = ''Frontend'' then Some 0 else None)"
proof -
  let ?r = "\<lparr>key_stars = Some 0, key_forks = Some 3, key_watchers = Some 0,
             key_language = Some ''javascript'', key_topics = None\<rparr>"
  have h: "\<forall>repo\<in>set [?r]. calculate_repo_weight repo = Inr 0"
    by (simp add: calculate_repo_weight_no_stars)
  have d: "analyze_repo_domains ?r = {''Frontend''}"
    by (simp add: analyze_repo_domains_def classify_by_language_javascript)
  show ?thesis
    using classify_zero_weight [OF h, of "[]"] h by (simp add: d)
qed

text \<open>
  Claim C4, as stated: a single repository with language \<open>javascript\<close> and no topics
  gives exactly \<open>{Frontend: 1.0}\<close> whatever its star count.  With no stars the weight
  is zero, the guard \<open>total_weight > 0\<close> skips the division, and the result is
  \<open>{Frontend: 0.0}\<close>.
\<close>

theorem classify_single_javascript_zero_stars:
  "classify_domains [\<lparr>key_stars = Some 0, key_forks = Some 0, key_watchers = Some 0,
                      key_language = Some ''javascript'', key_topics = Some []\<rparr>] []
     = Inr [''Frontend'' \<mapsto> 0]
   \<and> classify_domains [\<lparr>key_stars = Some 0, key_forks = Some 0, key_watchers = Some 0,
                      key_language = Some ''javascript'', key_topics = Some []\<rparr>] []
     \<noteq> Inr [''Frontend'' \<mapsto> 1]"
proof -
  let ?r = "\<lparr>key_stars = Some 0, key_forks = Some 0, key_watchers = Some 0,
             key_language = Some ''javascript'', key_topics = Some []\<rparr>"
  have w: "calculate_repo_weight ?r = Inr 0"
    by (simp add: calculate_repo_weight_no_stars)
  have d: "analyze_repo_domains ?r = {''Frontend''}"
    by (simp add: analyze_repo_domains_def classify_by_language_javascript)
  have v: "classify_domains [?r] [] = Inr [''Frontend'' \<mapsto> 0]"
    by (auto simp add: classify_domains_def w add_weight_def d and_then_def fun_eq_iff)
  have "[''Frontend'' \<mapsto> (0::real)] ''Frontend'' \<noteq> [''Frontend'' \<mapsto> (1::real)] ''Frontend''"
    by simp
  then have "[''Frontend'' \<mapsto> (0::real)] \<noteq> [''Frontend'' \<mapsto> (1::real)]"
    by metis
  with v show ?thesis by simp
qed

text \<open>
  A star count from \<open>100 * (2 ^ 1024 - 2 ^ 970)\<close> on, about \<open>1.8 * 10 ^ 310\<close>, is too large
  for \<open>stars / 100\<close> to be a float: the weight, and with it the classification, raises.
\<close>

lemma classify_single_javascript_overflow:
  "classify_domains [\<lparr>key_stars = Some (10 ^ 311), key_forks = Some 0, key_watchers = Some 0,
                      key_language = Some ''javascript'', key_topics = Some []\<rparr>] []
     = Inl OverflowError"
proof -
  have "(2::real) ^ 1024 \<le> 10 ^ 309"
    by simp
  then have "(2::real) ^ 1024 - 2 ^ 970 \<le> 10 ^ 309"
    by simp
  then show ?thesis
    by (simp add: classify_domains_def calculate_repo_weight_def int_truediv_def and_then_def)
qed

text \<open>
  Claim C4, amended: a single repository with language \<open>javascript\<close>, an empty topic
  list and a star count that is positive and below \<open>100 * (2 ^ 1024 - 2 ^ 970)\<close> gives
  exactly \<open>{Frontend: 1.0}\<close>, whatever that star count: the weight is a positive float and
  cancels in the division.
\<close>

theorem classify_single_javascript:
  assumes "key_language repo = Some ''javascript''"
    and "key_topics repo = Some []"
    and "key_stars repo = Some s"
    and "0 < s"
    and "s < 100 * (2 ^ 1024 - 2 ^ 970)"
  shows "classify_domains [repo] contributions = Inr [''Frontend'' \<mapsto> 1]"
proof -
  have d: "analyze_repo_domains repo = {''Frontend''}"
    using assms by (simp add: analyze_repo_domains_def classify_by_language_javascript)
  from calculate_repo_weight_in_range [OF assms(3-5)] obtain w where
    w: "calculate_repo_weight repo = Inr w" and pos: "0 < w"
    by blast
  have loop: "classify_loop [repo] Map.empty 0 = Inr ([''Frontend'' \<mapsto> w], w)"
    by (auto simp add: w and_then_def add_weight_def d fun_eq_iff)
  have "divide_all [''Frontend'' \<mapsto> w] w = Inr [''Frontend'' \<mapsto> 1]"
    using pos by (auto simp add: divide_all_def fun_eq_iff)
  then show ?thesis
    unfolding classify_domains_def loop using pos by (simp add: and_then_def)
qed

theorem classify_single_javascript_witness:
  "(0::int) < 250 \<and> (250::int) < 100 * (2 ^ 1024 - 2 ^ 970)
   \<and> classify_domains [\<lparr>key_stars = Some 250, key_forks = Some 3, key_watchers = Some 7,
                      key_language = Some ''javascript'', key_topics = Some []\<rparr>] []
     = Inr [''Frontend'' \<mapsto> 1]"
proof -
  have b: "(250::int) < 100 * (2 ^ 1024 - 2 ^ 970)"
    by simp
  show ?thesis
    using b classify_single_javascript
      [of "\<lparr>key_stars = Some 250, key_forks = Some 3, key_watchers = Some 7,
            key_language = Some ''javascript'', key_topics = Some []\<rparr>" 250 "[]"]
    by simp
qed

text \<open>
  Claim C9: the result of \<open>classify_domains\<close> depends on the repositories only; any two
  \<open>contributions\<close> arguments give the same result.
\<close>

theorem classify_ignores_contributions:
  "classify_domains repos contributions1 = classify_domains repos contributions2"
  by (simp add: classify_domains_def)

section \<open>Properties of the nation predictor\<close>

lemma map_location_to_nation_nonempty:
  assumes "map_location_to_nation s = Some r"
  shows "r \<noteq> []"
proof -
  from assms obtain kws where "(r, kws) \<in> set location_mapping"
    by (auto simp add: map_location_to_nation_def find_Some_iff split: if_splits
        dest: nth_mem)
  then show ?thesis
    by (auto simp add: location_mapping_def)
qed

lemma truthy_map_location:
  "truthy (map_location_to_nation s) \<longleftrightarrow> map_location_to_nation s \<noteq> None"
  by (cases "map_location_to_nation s")
     (auto simp add: truthy_def dest: map_location_to_nation_nonempty)

lemma map_location_to_nation_Nil: "map_location_to_nation [] = None"
  by (simp add: map_location_to_nation_def)

lemma mapped_nations_eq:
  "mapped_nations nl = List.map_filter map_location_to_nation nl"
proof -
  have "(\<lambda>loc. if loc \<noteq> [] \<and> truthy (map_location_to_nation loc)
              then map_location_to_nation loc else None) = map_location_to_nation"
    by (auto simp add: fun_eq_iff truthy_map_location map_location_to_nation_Nil)
  then show ?thesis
    by (simp add: mapped_nations_def)
qed

lemma predict_nation_declared:
  assumes "map_location_to_nation s = Some r"
  shows "predict_nation (Some s) nl = Inr (r, 1)"
proof -
  have "s \<noteq> []"
    using assms by (auto simp add: map_location_to_nation_Nil)
  moreover have "truthy (map_location_to_nation s)"
    using assms map_location_to_nation_nonempty [OF assms] by (simp add: truthy_def)
  ultimately show ?thesis
    using assms by (simp add: predict_nation_def)
qed

lemma predict_nation_undeclared:
  assumes "Option.bind dl map_location_to_nation = None"
  shows "predict_nation dl nl = predict_from_network nl"
  using assms
  by (cases dl) (auto simp add: predict_nation_def truthy_map_location)

text \<open>The counter holds each element once, with its number of occurrences.\<close>

lemma counter_add_keys: "fst ` set (counter_add x cs) = insert x (fst ` set cs)"
  by (induction x cs rule: counter_add.induct) auto

lemma counter_add_distinct:
  "distinct (map fst cs) \<Longrightarrow> distinct (map fst (counter_add x cs))"
  by (induction x cs rule: counter_add.induct) (auto simp add: counter_add_keys)

lemma counter_add_map_of:
  "map_of (counter_add x cs) k =
     (if k = x then Some (case map_of cs x of None \<Rightarrow> 1 | Some c \<Rightarrow> c + 1) else map_of cs k)"
  by (induction x cs rule: counter_add.induct) auto

lemma Counter_snoc: "Counter (xs @ [x]) = counter_add x (Counter xs)"
  by (simp add: Counter_def)

lemma Counter_distinct: "distinct (map fst (Counter xs))"
  by (induction xs rule: rev_induct) (simp_all add: Counter_def counter_add_distinct)

lemma Counter_map_of:
  "map_of (Counter xs) k = (if k \<in> set xs then Some (count_list xs k) else None)"
proof (induction xs rule: rev_induct)
  case Nil
  then show ?case by (simp add: Counter_def)
next
  case (snoc x xs)
  then show ?case
    by (auto simp add: Counter_snoc counter_add_map_of)
qed

lemma Counter_entry:
  "(k, c) \<in> set (Counter xs) \<longleftrightarrow> k \<in> set xs \<and> c = count_list xs k"
proof -
  have "(k, c) \<in> set (Counter xs) \<longleftrightarrow> map_of (Counter xs) k = Some c"
    using Counter_distinct [of xs] by (rule map_of_eq_Some_iff [symmetric])
  also have "\<dots> \<longleftrightarrow> k \<in> set xs \<and> c = count_list xs k"
    by (auto simp add: Counter_map_of)
  finally show ?thesis .
qed

lemma Counter_empty_iff: "Counter xs = [] \<longleftrightarrow> xs = []"
proof
  assume e: "Counter xs = []"
  show "xs = []"
  proof (cases xs)
    case Nil
    then show ?thesis .
  next
    case (Cons a as)
    then have "(a, count_list xs a) \<in> set (Counter xs)"
      by (simp add: Counter_entry)
    with e show ?thesis by simp
  qed
qed (simp add: Counter_def)

lemma first_max_mem: "first_max best xs \<in> set (best # xs)"
  by (induction best xs rule: first_max.induct) auto

lemma first_max_ge_best: "snd best \<le> snd (first_max best xs)"
proof (induction xs arbitrary: best)
  case Nil
  then show ?case by simp
next
  case (Cons x xs)
  show ?case
  proof (cases "snd best < snd x")
    case True
    then show ?thesis
      using Cons [of x] by simp
  next
    case False
    then show ?thesis
      using Cons [of best] by simp
  qed
qed

lemma first_max_ge: "y \<in> set (best # xs) \<Longrightarrow> snd y \<le> snd (first_max best xs)"
proof (induction xs arbitrary: best)
  case Nil
  then show ?case by simp
next
  case (Cons x xs)
  consider "y = best" | "y = x" | "y \<in> set xs"
    using Cons.prems by auto
  then show ?case
  proof cases
    case 1
    then show ?thesis by (simp only: first_max_ge_best)
  next
    case 2
    show ?thesis
    proof (cases "snd best < snd x")
      case True
      then show ?thesis
        using first_max_ge_best [of x xs] 2 by simp
    next
      case False
      then have "snd y \<le> snd best" using 2 by simp
      also have "\<dots> \<le> snd (first_max best xs)" by (rule first_max_ge_best)
      finally show ?thesis using False by simp
    qed
  next
    case 3
    then have "y \<in> set ((if snd best < snd x then x else best) # xs)" by simp
    from Cons.IH [OF this] show ?thesis by simp
  qed
qed

lemma most_common_1_Counter:
  assumes "xs \<noteq> []"
  shows "\<exists>r. most_common_1 (Counter xs) = [(r, count_list xs r)] \<and> r \<in> set xs
            \<and> (\<forall>r'. count_list xs r' \<le> count_list xs r)"
proof -
  obtain e es where ce: "Counter xs = e # es"
    using assms Counter_empty_iff [of xs] by (cases "Counter xs") auto
  define m where "m = first_max e es"
  have mem: "m \<in> set (Counter xs)"
    unfolding m_def ce by (rule first_max_mem)
  then have r: "fst m \<in> set xs" and c: "snd m = count_list xs (fst m)"
    using Counter_entry [of "fst m" "snd m" xs] by simp_all
  have "count_list xs r' \<le> count_list xs (fst m)" for r'
  proof (cases "r' \<in> set xs")
    case True
    then have "(r', count_list xs r') \<in> set (e # es)"
      using Counter_entry [of r' "count_list xs r'" xs] ce by simp
    from first_max_ge [OF this] show ?thesis
      using c by (simp add: m_def)
  next
    case False
    then show ?thesis by (simp add: count_list_0_iff [THEN iffD2])
  qed
  moreover have "most_common_1 (Counter xs) = [(fst m, count_list xs (fst m))]"
    using c by (simp add: most_common_1_def ce m_def [symmetric] prod_eq_iff)
  ultimately show ?thesis
    using r by blast
qed

lemma count_list_eq_length_iff:
  "count_list xs r = length xs \<longleftrightarrow> (\<forall>x\<in>set xs. x = r)"
proof (induction xs)
  case Nil
  then show ?case by simp
next
  case (Cons a xs)
  have "count_list xs r \<le> length xs"
    by (rule count_le_length)
  with Cons show ?case by auto
qed

lemma map_filter_empty_iff:
  "List.map_filter f xs = [] \<longleftrightarrow> (\<forall>x\<in>set xs. f x = None)"
  by (induction xs) (auto simp add: map_filter_simps split: option.splits)

lemma length_map_filter_eq:
  "length (List.map_filter f xs) = length (filter (\<lambda>x. f x \<noteq> None) xs)"
  by (simp add: map_filter_def)

lemma predict_from_network_none:
  assumes "List.map_filter map_location_to_nation nl = []"
  shows "predict_from_network nl = Inr (''Unknown'', 0)"
  using assms by (simp add: predict_from_network_def mapped_nations_eq)

lemma predict_from_network_vote:
  assumes "List.map_filter map_location_to_nation nl \<noteq> []"
  shows "\<exists>r. predict_from_network nl =
              Inr (r, real (count_list (List.map_filter map_location_to_nation nl) r)
                      / real (length (List.map_filter map_location_to_nation nl)))
           \<and> r \<in> set (List.map_filter map_location_to_nation nl)
           \<and> (\<forall>r'. count_list (List.map_filter map_location_to_nation nl) r'
                       \<le> count_list (List.map_filter map_location_to_nation nl) r)"
proof -
  define M where "M = List.map_filter map_location_to_nation nl"
  have ne: "M \<noteq> []"
    using assms by (simp add: M_def)
  from most_common_1_Counter [OF ne] obtain r where
    mc: "most_common_1 (Counter M) = [(r, count_list M r)]"
    and mem: "r \<in> set M"
    and mx: "\<forall>r'. count_list M r' \<le> count_list M r"
    by blast
  have "predict_from_network nl = Inr (r, real (count_list M r) / real (length M))"
    using ne mc
    by (simp add: predict_from_network_def mapped_nations_eq M_def [symmetric]
        Let_def truediv_def and_then_def)
  with mem mx show ?thesis
    unfolding M_def by blast
qed

lemmas predictor_eval = map_location_to_nation_def location_mapping_def string_eval

lemma map_location_london: "map_location_to_nation ''london'' = Some ''United Kingdom''"
  by (simp add: predictor_eval)

lemma map_location_Beijing: "map_location_to_nation ''Beijing, China'' = Some ''China''"
  by (simp add: predictor_eval)

lemma map_location_London_UK: "map_location_to_nation ''London, UK'' = Some ''United Kingdom''"
  by (simp add: predictor_eval)

lemma map_location_unknown_place: "map_location_to_nation ''unknown place'' = None"
  by (simp add: predictor_eval)

lemma predict_nation_returns: "\<exists>r c. predict_nation declared nl = Inr (r, c)"
proof (cases "Option.bind declared map_location_to_nation")
  case (Some r)
  then obtain s where "declared = Some s" "map_location_to_nation s = Some r"
    by (cases declared) auto
  then show ?thesis
    by (simp add: predict_nation_declared)
next
  case None
  show ?thesis
  proof (cases "List.map_filter map_location_to_nation nl = []")
    case True
    then show ?thesis
      by (simp add: predict_nation_undeclared [OF None] predict_from_network_none)
  next
    case False
    from predict_from_network_vote [OF False] show ?thesis
      unfolding predict_nation_undeclared [OF None] by blast
  qed
qed

text \<open>
  Claim C2, as stated: the confidence lies in \<open>[0, 1]\<close> and is exactly 1 only when the
  declared location itself maps to a region.  The second part fails: with an empty
  declared location and the single network location \<open>london\<close>, the vote is unanimous
  and the confidence is \<open>1 / 1\<close>.
\<close>

theorem network_vote_confidence_one:
  "Option.bind (Some []) map_location_to_nation = None
   \<and> predict_nation (Some []) [''london''] = Inr (''United Kingdom'', 1)"
  by (simp add: map_location_to_nation_Nil predict_nation_def predict_from_network_def
      mapped_nations_def map_filter_simps map_location_london truthy_def Counter_def
      most_common_1_def truediv_def and_then_def)

text \<open>
  Claim C2, amended: \<open>predict_nation\<close> always returns a pair whose confidence lies in
  \<open>[0, 1]\<close>, and the confidence is exactly 1 if and only if the declared location maps
  to a region or the network locations that map all map to one region, the returned one.
\<close>

theorem predict_nation_confidence:
  "\<exists>r c. predict_nation declared nl = Inr (r, c) \<and> 0 \<le> c \<and> c \<le> 1
        \<and> (c = 1 \<longleftrightarrow> Option.bind declared map_location_to_nation \<noteq> None
                      \<or> set (List.map_filter map_location_to_nation nl) = {r})"
proof (cases "Option.bind declared map_location_to_nation")
  case (Some r)
  then obtain s where "declared = Some s" "map_location_to_nation s = Some r"
    by (cases declared) auto
  then show ?thesis
    using Some by (simp add: predict_nation_declared)
next
  case None
  define M where "M = List.map_filter map_location_to_nation nl"
  show ?thesis
  proof (cases "M = []")
    case True
    then have "predict_nation declared nl = Inr (''Unknown'', 0)"
      by (simp add: predict_nation_undeclared [OF None] predict_from_network_none M_def)
    then show ?thesis
      using None True by (simp add: M_def)
  next
    case False
    from predict_from_network_vote [OF False [unfolded M_def]] obtain r where
      res: "predict_nation declared nl = Inr (r, real (count_list M r) / real (length M))"
      and mem: "r \<in> set M"
      by (auto simp add: predict_nation_undeclared [OF None] M_def)
    have le: "count_list M r \<le> length M"
      by (rule count_le_length)
    have pos: "0 < length M"
      using False by simp
    have full: "count_list M r = length M \<longleftrightarrow> set M = {r}"
      using mem by (auto simp add: count_list_eq_length_iff)
    have "real (count_list M r) / real (length M) = 1 \<longleftrightarrow> count_list M r = length M"
      using pos by auto
    then have "real (count_list M r) / real (length M) = 1 \<longleftrightarrow> set M = {r}"
      using full by simp
    moreover have "0 \<le> real (count_list M r) / real (length M)"
      by simp
    moreover have "real (count_list M r) / real (length M) \<le> 1"
      using le pos by simp
    ultimately show ?thesis
      using res None by (simp add: M_def)
  qed
qed

theorem predict_nation_confidence_witness:
  "\<exists>r c. predict_nation (Some ''Beijing, China'') [''london''] = Inr (r, c)
      \<and> 0 \<le> c \<and> c \<le> 1 \<and> c = 1"
  using predict_nation_confidence [of "Some ''Beijing, China''" "[''london'']"]
  by (simp add: map_location_Beijing)

text \<open>
  Claim C7: when the declared location is missing, empty or maps to no region, then, if
  some network location maps to a region, \<open>predict_nation\<close> returns a most frequent
  mapped region, with confidence its number of occurrences divided by the number of
  network locations that map (the others are left out of the denominator); and if no
  network location maps, it returns \<open>(Unknown, 0.0)\<close>.
\<close>

theorem predict_nation_network_vote:
  assumes "Option.bind declared map_location_to_nation = None"
  shows "((\<exists>loc\<in>set nl. map_location_to_nation loc \<noteq> None) \<longrightarrow>
            (\<exists>r. predict_nation declared nl =
                    Inr (r, real (count_list (List.map_filter map_location_to_nation nl) r)
                            / real (length (filter (\<lambda>loc. map_location_to_nation loc \<noteq> None) nl)))
                \<and> r \<in> set (List.map_filter map_location_to_nation nl)
                \<and> (\<forall>r'. count_list (List.map_filter map_location_to_nation nl) r'
                            \<le> count_list (List.map_filter map_location_to_nation nl) r)))
       \<and> ((\<forall>loc\<in>set nl. map_location_to_nation loc = None) \<longrightarrow>
            predict_nation declared nl = Inr (''Unknown'', 0))"
proof (intro conjI impI)
  assume "\<exists>loc\<in>set nl. map_location_to_nation loc \<noteq> None"
  then have "List.map_filter map_location_to_nation nl \<noteq> []"
    by (simp add: map_filter_empty_iff)
  from predict_from_network_vote [OF this]
  show "\<exists>r. predict_nation declared nl =
                    Inr (r, real (count_list (List.map_filter map_location_to_nation nl) r)
                            / real (length (filter (\<lambda>loc. map_location_to_nation loc \<noteq> None) nl)))
                \<and> r \<in> set (List.map_filter map_location_to_nation nl)
                \<and> (\<forall>r'. count_list (List.map_filter map_location_to_nation nl) r'
                            \<le> count_list (List.map_filter map_location_to_nation nl) r)"
    by (simp add: predict_nation_undeclared [OF assms] length_map_filter_eq)
next
  assume "\<forall>loc\<in>set nl. map_location_to_nation loc = None"
  then have "List.map_filter map_location_to_nation nl = []"
    by (simp add: map_filter_empty_iff)
  then show "predict_nation declared nl = Inr (''Unknown'', 0)"
    by (simp add: predict_nation_undeclared [OF assms] predict_from_network_none)
qed

theorem predict_nation_network_vote_witness:
  "Option.bind (Some []) map_location_to_nation = None
   \<and> (\<exists>loc\<in>set [''London, UK'', ''london'', ''unknown place'']. map_location_to_nation loc \<noteq> None)
   \<and> predict_nation (Some []) [''London, UK'', ''london'', ''unknown place'']
       = Inr (''United Kingdom'', 1)"
proof -
  let ?nl = "[''London, UK'', ''london'', ''unknown place'']"
  have h: "Option.bind (Some []) map_location_to_nation = None"
    by (simp add: map_location_to_nation_Nil)
  have e: "\<exists>loc\<in>set ?nl. map_location_to_nation loc \<noteq> None"
    by (simp add: map_location_london)
  have M: "List.map_filter map_location_to_nation ?nl = [''United Kingdom'', ''United Kingdom'']"
    by (simp add: map_filter_simps map_location_london map_location_London_UK
        map_location_unknown_place)
  have F: "filter (\<lambda>loc. map_location_to_nation loc \<noteq> None) ?nl = [''London, UK'', ''london'']"
    by (simp add: map_location_london map_location_London_UK map_location_unknown_place)
  from predict_nation_network_vote [OF h, of ?nl] e
  obtain r where "predict_nation (Some []) ?nl
        = Inr (r, real (count_list [''United Kingdom'', ''United Kingdom''] r) / real (length [''London, UK'', ''london'']))"
    and "r \<in> set [''United Kingdom'', ''United Kingdom'']"
    unfolding M F by blast
  then have "predict_nation (Some []) ?nl = Inr (''United Kingdom'', 1)"
    by simp
  with h e show ?thesis by blast
qed

text \<open>
  Claim C10: when the declared location is non-empty and maps to a region, the result
  of \<open>predict_nation\<close> is the same for any two lists of network locations: it is that
  region with confidence 1.
\<close>

theorem predict_nation_declared_independent:
  assumes "declared \<noteq> []" and "map_location_to_nation declared = Some r"
  shows "predict_nation (Some declared) nl1 = predict_nation (Some declared) nl2
       \<and> predict_nation (Some declared) nl1 = Inr (r, 1)"
  using assms by (simp add: predict_nation_declared)

theorem predict_nation_declared_independent_witness:
  "''Beijing, China'' \<noteq> [] \<and> map_location_to_nation ''Beijing, China'' = Some ''China''
   \<and> predict_nation (Some ''Beijing, China'') [] = predict_nation (Some ''Beijing, China'') [''london'']
   \<and> predict_nation (Some ''Beijing, China'') [] = Inr (''China'', 1)"
  using predict_nation_declared_independent [of "''Beijing, China''" "''China''" "[]" "[''london'']"]
  by (auto simp add: map_location_Beijing)

section \<open>Properties of the analyzer\<close>

lemma calculate_talent_rank_Nil: "calculate_talent_rank ops c user [] w = (Inr 0, w)"
  by (simp add: calculate_talent_rank_def bind_def return_def)

lemma collect_repository_details_Nil: "collect_repository_details c [] w = (Inr [], w)"
  by (simp add: collect_repository_details_def return_def)

lemma collect_contributions_Nil: "collect_contributions c user [] w = (Inr [], w)"
  by (simp add: collect_contributions_def return_def)

text \<open>Awaiting the result of a collector call never yields a value.\<close>

lemma await_plain_raises:
  "await_plain call w =
     (case call w of (Inl e, w') \<Rightarrow> (Inl e, w') | (Inr v, w') \<Rightarrow> (Inl TypeError, w'))"
  by (simp add: await_plain_def bind_def lift_def split: prod.splits sum.splits)

lemma analyze_developer_raises:
  "analyze_developer ops c now user w =
     (case get_developer_profile c user w of
        (Inl e, w') \<Rightarrow> (Inl e, w')
      | (Inr p, w') \<Rightarrow> (Inl TypeError, w'))"
  by (simp add: analyze_developer_def bind_def await_plain_raises split: prod.splits sum.splits)

text \<open>
  Claim C8: for a developer with no repositories the analysis yields a talent rank of
  exactly 0 and an empty domain map, with no division by zero.  The two functions the
  analysis is built from do so: \<open>_calculate_talent_rank\<close> on an empty list returns 0
  before any division, and \<open>classify_domains\<close> on an empty list returns the empty map.
  The analysis itself does not get there.  Its first statement awaits the result of
  \<open>get_developer_profile\<close>, a plain method, so for a developer whose profile is fetched
  and lists no repository \<open>analyze_developer\<close> raises \<open>TypeError\<close> and yields no record.
\<close>

theorem analyze_zero_repositories_raises:
  "calculate_talent_rank exact_ops
     \<lparr>get_developer_profile = (\<lambda>u w. (Inr \<lparr>DeveloperProfile.username = u, name = None,
          location = Some ''london'', blog = None, bio = None, repositories = [],
          followers = [''bob''], following = []\<rparr>, Suc w)),
      get_repository_metrics = (\<lambda>r w. (Inl (UpstreamError ''not found''), w)),
      get_developer_contributions = (\<lambda>u r w. (Inl (UpstreamError ''not found''), w))\<rparr>
     ''alice'' [] (1::nat) = (Inr 0, 1)
   \<and> classify_domains [] [] = Inr Map.empty
   \<and> analyze_developer exact_ops
     \<lparr>get_developer_profile = (\<lambda>u w. (Inr \<lparr>DeveloperProfile.username = u, name = None,
          location = Some ''london'', blog = None, bio = None, repositories = [],
          followers = [''bob''], following = []\<rparr>, Suc w)),
      get_repository_metrics = (\<lambda>r w. (Inl (UpstreamError ''not found''), w)),
      get_developer_contributions = (\<lambda>u r w. (Inl (UpstreamError ''not found''), w))\<rparr>
     int ''alice'' (0::nat) = (Inl TypeError, 1)"
  by (simp add: calculate_talent_rank_Nil classify_domains_Nil analyze_developer_raises)

section \<open>The model on the documented examples\<close>

lemma example_declared_beijing:
  "predict_nation (Some ''Beijing, China'') [] = Inr (''China'', 1)"
  by (simp add: predict_nation_declared map_location_Beijing)

lemma example_no_signal: "predict_nation (Some []) [] = Inr (''Unknown'', 0)"
  by (simp add: predict_nation_def predict_from_network_def mapped_nations_def map_filter_simps)

lemma example_two_repositories:
  "classify_domains
     [\<lparr>key_stars = Some 500, key_forks = Some 0, key_watchers = Some 0,
       key_language = Some ''python'', key_topics = Some []\<rparr>,
      \<lparr>key_stars = Some 500, key_forks = Some 0, key_watchers = Some 0,
       key_language = None, key_topics = Some [''docker'']\<rparr>] []
   = Inr [''Backend'' \<mapsto> 1 / 2, ''DevOps'' \<mapsto> 1 / 2]"
proof -
  have l: "classify_by_language ''python'' = {''Backend''}"
    by (simp add: classify_by_language_def domain_keywords_def string_eval)
  have w: "calculate_repo_weight r = Inr 5" if "key_stars r = Some 500" for r
  proof -
    have "(5::real) < 2 ^ 1024 - 2 ^ 970"
      by simp
    then show ?thesis
      using that by (simp add: calculate_repo_weight_def int_truediv_def and_then_def)
  qed
  show ?thesis
    by (auto simp add: classify_domains_def w add_weight_def and_then_def
        analyze_repo_domains_def l classify_by_topics_docker divide_all_def fun_eq_iff)
qed

lemma example_all_zero_metrics:
  "calculate_project_importance ops \<lparr>stars = 0, forks = 0, watchers = 0\<rparr> = Inr 0"
  by (simp add: calculate_project_importance_def normalize_value_nonpos and_then_def)

end
